theory Spec2Isabelle
  imports Main "HOL-Library.Word"
begin

section \<open>The vibrator service's native layer\<close>

text \<open>
  A shallow embedding of \<^verbatim>\<open>services/core/jni/com_android_server_VibratorService.cpp\<close>:
  the retrying dispatcher \<^verbatim>\<open>halCall\<close> and the seven native methods built on it.
  The vibrator HAL itself (its generated headers and the running service) is outside the file;
  it enters the model as a record of functions over an arbitrary world state, and everything
  the native layer does to it is written to a trace.
\<close>

subsection \<open>Values\<close>

text \<open>
  \<^verbatim>\<open>jint\<close> and \<^verbatim>\<open>jlong\<close> are 32- and 64-bit two's complement integers (read with
  \<open>sint\<close>), \<^verbatim>\<open>uint32_t\<close> and \<^verbatim>\<open>uint8_t\<close> are unsigned 32- and 8-bit integers
  (read with \<open>uint\<close>).
\<close>

type_synonym jint = "32 word"
type_synonym jlong = "64 word"
type_synonym uint32_t = "32 word"
type_synonym uint8_t = "8 word"

text \<open>\<^verbatim>\<open>sp<I>\<close>: a strong pointer to a remote interface; \<open>None\<close> is \<^verbatim>\<open>nullptr\<close>.\<close>

type_synonym handle = nat
type_synonym sp = "handle option"

text \<open>The two interfaces \<^verbatim>\<open>halCall\<close> is instantiated with (the template parameter \<^verbatim>\<open>I\<close>).\<close>

datatype iface = IVibrator | IVibrator_1_1

text \<open>
  Modelled from the spec: the enumeration \<^verbatim>\<open>Status\<close> is declared in the HAL's
  \<^verbatim>\<open>types.h\<close>, which is not part of the file. The three codes the file names are
  constructors; \<open>Status_other\<close> stands for every other value of the enumeration.
\<close>

datatype Status = OK | UNKNOWN_ERROR | UNSUPPORTED_OPERATION | Status_other uint32_t

text \<open>
  \<^verbatim>\<open>Return<R>\<close>: either a value, or a transport status without a value.
  \<^verbatim>\<open>Return<R>{Status::fromExceptionCode(c)}\<close> is \<open>FromStatus c\<close>.
\<close>

datatype exception_code = EX_NONE | EX_NULL_POINTER | EX_TRANSACTION_FAILED

datatype 'r Return = Value 'r | FromStatus exception_code

fun isOk :: "'r Return \<Rightarrow> bool" where
  "isOk (Value v) = True"
| "isOk (FromStatus c) = (c = EX_NONE)"

text \<open>
  \<^verbatim>\<open>withDefault(d)\<close> is \<^verbatim>\<open>isOk() ? mVal : d\<close>. A \<^verbatim>\<open>Return<R>\<close> built from a
  status leaves its member \<^verbatim>\<open>mVal\<close> value-initialised (\<^verbatim>\<open>R mVal {}\<close>), which
  \<open>default\<close> stands for: \<^verbatim>\<open>false\<close> for \<^verbatim>\<open>bool\<close>, and for \<^verbatim>\<open>Status\<close> the
  enumerator with code 0, which is \<^verbatim>\<open>OK\<close>.
\<close>

instantiation Status :: default
begin

definition default_Status :: Status where
  "default_Status = OK"

instance ..

end

instantiation bool :: default
begin

definition default_bool :: bool where
  "default_bool = False"

instance ..

end

fun withDefault :: "'r::default Return \<Rightarrow> 'r \<Rightarrow> 'r" where
  "withDefault (Value v) d = v"
| "withDefault (FromStatus c) d = (if c = EX_NONE then default else d)"

definition NUM_TRIES :: nat where
  "NUM_TRIES = 2"

definition NullptrStatus :: "'r Return" where
  "NullptrStatus = FromStatus EX_NULL_POINTER"

subsection \<open>The trace\<close>

text \<open>
  Every acquisition of the service, every HAL method invoked on a handle (with the arguments
  it receives and what it answered) and every log line is an event. The arguments have the
  parameter types of the methods, which the vibrator@1.0 interface the file includes declares
  (\<^verbatim>\<open>IVibrator.h\<close>, not part of the file): \<^verbatim>\<open>on(uint32_t timeoutMs)\<close> and
  \<^verbatim>\<open>setAmplitude(uint8_t amplitude)\<close>.
\<close>

datatype log_arg = ArgInt int | ArgStatus Status

datatype 's event =
    GetService iface sp
  | TryGetService iface sp
  | Call_ping handle "unit Return"
  | Call_on handle uint32_t "Status Return"
  | Call_off handle "Status Return"
  | Call_supportsAmplitudeControl handle "bool Return"
  | Call_setAmplitude handle uint8_t "Status Return"
  | Call_perform handle uint32_t 's "(Status \<times> uint32_t) Return"
  | Call_perform_1_1 handle uint32_t 's "(Status \<times> uint32_t) Return"
  | LogE string "log_arg list"
  | LogW string "log_arg list"

fun is_call :: "'s event \<Rightarrow> bool" where
  "is_call (Call_ping h r) = True"
| "is_call (Call_on h t r) = True"
| "is_call (Call_off h r) = True"
| "is_call (Call_supportsAmplitudeControl h r) = True"
| "is_call (Call_setAmplitude h a r) = True"
| "is_call (Call_perform h e st r) = True"
| "is_call (Call_perform_1_1 h e st r) = True"
| "is_call _ = False"

fun is_acquire :: "'s event \<Rightarrow> bool" where
  "is_acquire (GetService i h) = True"
| "is_acquire (TryGetService i h) = True"
| "is_acquire _ = False"

fun is_LogE :: "'s event \<Rightarrow> bool" where
  "is_LogE (LogE m as) = True"
| "is_LogE _ = False"

text \<open>What the last \<^verbatim>\<open>perform\<close> or \<^verbatim>\<open>perform_1_1\<close> call of a trace answered.\<close>

fun last_perform :: "'s event list \<Rightarrow> (Status \<times> uint32_t) Return option" where
  "last_perform [] = None"
| "last_perform (e # es) =
     (case last_perform es of
        Some r \<Rightarrow> Some r
      | None \<Rightarrow> (case e of
           Call_perform h x st r \<Rightarrow> Some r
         | Call_perform_1_1 h x st r \<Rightarrow> Some r
         | _ \<Rightarrow> None))"

subsection \<open>The HAL\<close>

text \<open>
  What the file takes from outside, over a world state \<open>'w\<close>: the service manager
  (\<^verbatim>\<open>I::getService\<close>, \<^verbatim>\<open>I::tryGetService\<close>), the methods of the interfaces, the
  numeric code of \<^verbatim>\<open>Effect_1_1::TICK\<close> and the conversion
  \<^verbatim>\<open>static_cast<EffectStrength>\<close> into the strength enumeration \<open>'s\<close>, which
  \<^verbatim>\<open>types.h\<close> declares. \<^verbatim>\<open>Effect\<close> and \<^verbatim>\<open>Effect_1_1\<close> values are
  represented by their \<^verbatim>\<open>uint32_t\<close> codes, the type the file itself converts them to.

  Modelled from the spec: a \<^verbatim>\<open>perform\<close> call that completes hands a status and a
  duration to its callback and returns an ok \<^verbatim>\<open>Return<void>\<close> (here
  \<open>Value (status, duration)\<close>); a call that fails in transport does not run the callback.
\<close>

record ('w, 's) hal =
  TICK :: uint32_t
  toEffectStrength :: "jint \<Rightarrow> 's"
  getService :: "iface \<Rightarrow> 'w \<Rightarrow> sp \<times> 'w"
  tryGetService :: "iface \<Rightarrow> 'w \<Rightarrow> sp \<times> 'w"
  hal_ping :: "handle \<Rightarrow> 'w \<Rightarrow> unit Return \<times> 'w"
  hal_on :: "handle \<Rightarrow> uint32_t \<Rightarrow> 'w \<Rightarrow> Status Return \<times> 'w"
  hal_off :: "handle \<Rightarrow> 'w \<Rightarrow> Status Return \<times> 'w"
  hal_supportsAmplitudeControl :: "handle \<Rightarrow> 'w \<Rightarrow> bool Return \<times> 'w"
  hal_setAmplitude :: "handle \<Rightarrow> uint8_t \<Rightarrow> 'w \<Rightarrow> Status Return \<times> 'w"
  hal_perform :: "handle \<Rightarrow> uint32_t \<Rightarrow> 's \<Rightarrow> 'w \<Rightarrow> (Status \<times> uint32_t) Return \<times> 'w"
  hal_perform_1_1 :: "handle \<Rightarrow> uint32_t \<Rightarrow> 's \<Rightarrow> 'w \<Rightarrow> (Status \<times> uint32_t) Return \<times> 'w"

subsection \<open>Process state\<close>

text \<open>
  \<^verbatim>\<open>halCall\<close> is a function template and \<^verbatim>\<open>sHal\<close>, \<^verbatim>\<open>sAvailable\<close> are its
  function-local statics: each instantiation has its own pair, initialised the first time that
  instantiation runs (\<open>guard\<close>). The file instantiates the template seven times, once per
  HAL method it passes (the instantiations differ in \<^verbatim>\<open>R\<close>, \<^verbatim>\<open>I\<close> or the argument
  packs); \<^verbatim>\<open>vibratorInit\<close> and \<^verbatim>\<open>vibratorExists\<close> both use the one for
  \<^verbatim>\<open>ping\<close>.
\<close>

datatype halCall_inst =
    halCall_ping
  | halCall_on
  | halCall_off
  | halCall_supportsAmplitudeControl
  | halCall_setAmplitude
  | halCall_perform
  | halCall_perform_1_1

fun inst_iface :: "halCall_inst \<Rightarrow> iface" where
  "inst_iface halCall_perform_1_1 = IVibrator_1_1"
| "inst_iface _ = IVibrator"

record statics =
  guard :: bool
  sHal :: sp
  sAvailable :: bool

record ('w, 's) state =
  static :: "halCall_inst \<Rightarrow> statics"
  world :: 'w
  trace :: "'s event list"

definition ALOGE :: "string \<Rightarrow> log_arg list \<Rightarrow> ('w, 's, 'z) state_scheme \<Rightarrow> ('w, 's, 'z) state_scheme" where
  "ALOGE m as s = s\<lparr>trace := trace s @ [LogE m as]\<rparr>"

definition ALOGW :: "string \<Rightarrow> log_arg list \<Rightarrow> ('w, 's, 'z) state_scheme \<Rightarrow> ('w, 's, 'z) state_scheme" where
  "ALOGW m as s = s\<lparr>trace := trace s @ [LogW m as]\<rparr>"

text \<open>Invoking a HAL method on a handle: the world moves on, the call is traced.\<close>

definition hal_method ::
  "(handle \<Rightarrow> 'w \<Rightarrow> 'r Return \<times> 'w) \<Rightarrow> (handle \<Rightarrow> 'r Return \<Rightarrow> 's event) \<Rightarrow>
   handle \<Rightarrow> ('w, 's, 'z) state_scheme \<Rightarrow> 'r Return \<times> ('w, 's, 'z) state_scheme" where
  "hal_method m ev h s =
     (let (r, w) = m h (world s)
      in (r, s\<lparr>world := w, trace := trace s @ [ev h r]\<rparr>))"

subsection \<open>halCall\<close>

text \<open>
  \<^verbatim>\<open>static sp<I> sHal = I::getService(); static bool sAvailable = sHal != nullptr;\<close>
  runs once per instantiation.
\<close>

definition static_init ::
  "('w, 's) hal \<Rightarrow> halCall_inst \<Rightarrow> ('w, 's, 'z) state_scheme \<Rightarrow> ('w, 's, 'z) state_scheme" where
  "static_init H k s =
     (if guard (static s k) then s
      else (let (h, w) = getService H (inst_iface k) (world s)
            in s\<lparr>static := (static s)(k := \<lparr>guard = True, sHal = h, sAvailable = (h \<noteq> None)\<rparr>),
                 world := w,
                 trace := trace s @ [GetService (inst_iface k) h]\<rparr>))"

text \<open>\<^verbatim>\<open>sHal = I::tryGetService();\<close>\<close>

definition reconnect ::
  "('w, 's) hal \<Rightarrow> halCall_inst \<Rightarrow> ('w, 's, 'z) state_scheme \<Rightarrow> ('w, 's, 'z) state_scheme" where
  "reconnect H k s =
     (let (h, w) = tryGetService H (inst_iface k) (world s)
      in s\<lparr>static := (static s)(k := (static s k)\<lparr>sHal := h\<rparr>),
           world := w,
           trace := trace s @ [TryGetService (inst_iface k) h]\<rparr>)"

text \<open>
  One attempt:
  \<^verbatim>\<open>ret = (sHal == nullptr) ? NullptrStatus<R>() : (*sHal.*fn)(std::forward<Args1>(args1)...);\<close>
\<close>

definition attempt ::
  "halCall_inst \<Rightarrow> (handle \<Rightarrow> ('w, 's, 'z) state_scheme \<Rightarrow> 'r Return \<times> ('w, 's, 'z) state_scheme) \<Rightarrow>
   ('w, 's, 'z) state_scheme \<Rightarrow> 'r Return \<times> ('w, 's, 'z) state_scheme" where
  "attempt k fn s =
     (case sHal (static s k) of
        None \<Rightarrow> (NullptrStatus, s)
      | Some h \<Rightarrow> fn h s)"

definition retry_msg :: string where
  "retry_msg = ''Failed to issue command to vibrator HAL. Retrying.''"

text \<open>The loop \<^verbatim>\<open>for (int i = 0; i < NUM_TRIES; ++i)\<close>, entered with \<open>i\<close> and \<open>ret\<close>.\<close>

function halCall_loop ::
  "('w, 's) hal \<Rightarrow> halCall_inst \<Rightarrow>
   (handle \<Rightarrow> ('w, 's, 'z) state_scheme \<Rightarrow> 'r Return \<times> ('w, 's, 'z) state_scheme) \<Rightarrow>
   nat \<Rightarrow> 'r Return \<Rightarrow> ('w, 's, 'z) state_scheme \<Rightarrow> 'r Return \<times> ('w, 's, 'z) state_scheme" where
  "halCall_loop H k fn i ret s =
     (if i < NUM_TRIES then
        (case attempt k fn s of
           (ret', s1) \<Rightarrow>
             if isOk ret' then (ret', s1)
             else halCall_loop H k fn (i + 1) ret' (reconnect H k (ALOGE retry_msg [] s1)))
      else (ret, s))"
  by pat_completeness auto
termination
  by (relation "measure (\<lambda>(H, k, fn, i, ret, s). NUM_TRIES - i)") auto

declare halCall_loop.simps [simp del]

definition halCall ::
  "('w, 's) hal \<Rightarrow> halCall_inst \<Rightarrow>
   (handle \<Rightarrow> ('w, 's, 'z) state_scheme \<Rightarrow> 'r Return \<times> ('w, 's, 'z) state_scheme) \<Rightarrow>
   ('w, 's, 'z) state_scheme \<Rightarrow> 'r Return \<times> ('w, 's, 'z) state_scheme" where
  "halCall H k fn s =
     (let s0 = static_init H k s
      in if \<not> sAvailable (static s0 k) then (NullptrStatus, s0)
         else halCall_loop H k fn 0 (FromStatus EX_NONE) s0)"

subsection \<open>The HAL methods as the file calls them\<close>

definition IVibrator_ping ::
  "('w, 's) hal \<Rightarrow> handle \<Rightarrow> ('w, 's, 'z) state_scheme \<Rightarrow> unit Return \<times> ('w, 's, 'z) state_scheme" where
  "IVibrator_ping H = hal_method (hal_ping H) Call_ping"

text \<open>
  \<^verbatim>\<open>halCall\<close> forwards the arguments it was given (the pack \<^verbatim>\<open>Args1\<close>); the call
  \<^verbatim>\<open>(*sHal.*fn)(std::forward<Args1>(args1)...)\<close> converts each to the parameter type of the
  method (the pack \<^verbatim>\<open>Args0\<close>). For \<^verbatim>\<open>on\<close> the \<^verbatim>\<open>jlong\<close> timeout becomes a
  \<^verbatim>\<open>uint32_t\<close>, for \<^verbatim>\<open>setAmplitude\<close> the \<^verbatim>\<open>uint32_t\<close> amplitude becomes a
  \<^verbatim>\<open>uint8_t\<close>: in both the low bits are kept (\<open>ucast\<close>).
\<close>

definition IVibrator_on ::
  "('w, 's) hal \<Rightarrow> jlong \<Rightarrow> handle \<Rightarrow> ('w, 's, 'z) state_scheme \<Rightarrow>
   Status Return \<times> ('w, 's, 'z) state_scheme" where
  "IVibrator_on H timeout_ms =
     hal_method (\<lambda>h. hal_on H h (ucast timeout_ms)) (\<lambda>h. Call_on h (ucast timeout_ms))"

definition IVibrator_off ::
  "('w, 's) hal \<Rightarrow> handle \<Rightarrow> ('w, 's, 'z) state_scheme \<Rightarrow> Status Return \<times> ('w, 's, 'z) state_scheme" where
  "IVibrator_off H = hal_method (hal_off H) Call_off"

definition IVibrator_supportsAmplitudeControl ::
  "('w, 's) hal \<Rightarrow> handle \<Rightarrow> ('w, 's, 'z) state_scheme \<Rightarrow> bool Return \<times> ('w, 's, 'z) state_scheme" where
  "IVibrator_supportsAmplitudeControl H =
     hal_method (hal_supportsAmplitudeControl H) Call_supportsAmplitudeControl"

definition IVibrator_setAmplitude ::
  "('w, 's) hal \<Rightarrow> uint32_t \<Rightarrow> handle \<Rightarrow> ('w, 's, 'z) state_scheme \<Rightarrow>
   Status Return \<times> ('w, 's, 'z) state_scheme" where
  "IVibrator_setAmplitude H amplitude =
     hal_method (\<lambda>h. hal_setAmplitude H h (ucast amplitude))
       (\<lambda>h. Call_setAmplitude h (ucast amplitude))"

text \<open>
  \<^verbatim>\<open>perform\<close> and \<^verbatim>\<open>perform_1_1\<close> return \<^verbatim>\<open>Return<void>\<close> and deliver their
  result through the callback, which runs on the caller's state when the call completes.
\<close>

definition with_callback ::
  "(Status \<Rightarrow> uint32_t \<Rightarrow> ('w, 's, 'z) state_scheme \<Rightarrow> ('w, 's, 'z) state_scheme) \<Rightarrow>
   (Status \<times> uint32_t) Return \<times> ('w, 's, 'z) state_scheme \<Rightarrow>
   unit Return \<times> ('w, 's, 'z) state_scheme" where
  "with_callback cb rs =
     (case rs of
        (Value (st, len), s) \<Rightarrow> (Value (), cb st len s)
      | (FromStatus c, s) \<Rightarrow> (FromStatus c, s))"

definition IVibrator_perform ::
  "('w, 's) hal \<Rightarrow> uint32_t \<Rightarrow> 's \<Rightarrow>
   (Status \<Rightarrow> uint32_t \<Rightarrow> ('w, 's, 'z) state_scheme \<Rightarrow> ('w, 's, 'z) state_scheme) \<Rightarrow>
   handle \<Rightarrow> ('w, 's, 'z) state_scheme \<Rightarrow> unit Return \<times> ('w, 's, 'z) state_scheme" where
  "IVibrator_perform H effect strength cb h s =
     with_callback cb
       (hal_method (\<lambda>h. hal_perform H h effect strength) (\<lambda>h. Call_perform h effect strength) h s)"

definition IVibrator_1_1_perform_1_1 ::
  "('w, 's) hal \<Rightarrow> uint32_t \<Rightarrow> 's \<Rightarrow>
   (Status \<Rightarrow> uint32_t \<Rightarrow> ('w, 's, 'z) state_scheme \<Rightarrow> ('w, 's, 'z) state_scheme) \<Rightarrow>
   handle \<Rightarrow> ('w, 's, 'z) state_scheme \<Rightarrow> unit Return \<times> ('w, 's, 'z) state_scheme" where
  "IVibrator_1_1_perform_1_1 H effect strength cb h s =
     with_callback cb
       (hal_method (\<lambda>h. hal_perform_1_1 H h effect strength)
          (\<lambda>h. Call_perform_1_1 h effect strength) h s)"

subsection \<open>The native methods\<close>

definition vibratorInit :: "('w, 's) hal \<Rightarrow> ('w, 's) state \<Rightarrow> ('w, 's) state" where
  "vibratorInit H s = snd (halCall H halCall_ping (IVibrator_ping H) s)"

definition vibratorExists :: "('w, 's) hal \<Rightarrow> ('w, 's) state \<Rightarrow> bool \<times> ('w, 's) state" where
  "vibratorExists H s =
     (case halCall H halCall_ping (IVibrator_ping H) s of
        (ret, s') \<Rightarrow> (if isOk ret then True else False, s'))"

definition vibratorOn :: "('w, 's) hal \<Rightarrow> jlong \<Rightarrow> ('w, 's) state \<Rightarrow> ('w, 's) state" where
  "vibratorOn H timeout_ms s =
     (case halCall H halCall_on (IVibrator_on H timeout_ms) s of
        (ret, s') \<Rightarrow>
          (let retStatus = withDefault ret UNKNOWN_ERROR
           in if retStatus \<noteq> OK
              then ALOGE ''vibratorOn command failed (%PRIu32).'' [ArgStatus retStatus] s'
              else s'))"

definition vibratorOff :: "('w, 's) hal \<Rightarrow> ('w, 's) state \<Rightarrow> ('w, 's) state" where
  "vibratorOff H s =
     (case halCall H halCall_off (IVibrator_off H) s of
        (ret, s') \<Rightarrow>
          (let retStatus = withDefault ret UNKNOWN_ERROR
           in if retStatus \<noteq> OK
              then ALOGE ''vibratorOff command failed (%PRIu32).'' [ArgStatus retStatus] s'
              else s'))"

definition vibratorSupportsAmplitudeControl ::
  "('w, 's) hal \<Rightarrow> ('w, 's) state \<Rightarrow> jlong \<times> ('w, 's) state" where
  "vibratorSupportsAmplitudeControl H s =
     (case halCall H halCall_supportsAmplitudeControl (IVibrator_supportsAmplitudeControl H) s of
        (ret, s') \<Rightarrow> (if withDefault ret False then 1 else 0, s'))"

text \<open>
  \<^verbatim>\<open>static_cast<uint32_t>(amplitude)\<close>: the value modulo \<open>2 ^ 32\<close>, the same 32 bits.
\<close>

definition static_cast_uint32 :: "jint \<Rightarrow> uint32_t" where
  "static_cast_uint32 x = word_of_int (sint x)"

definition vibratorSetAmplitude :: "('w, 's) hal \<Rightarrow> jint \<Rightarrow> ('w, 's) state \<Rightarrow> ('w, 's) state" where
  "vibratorSetAmplitude H amplitude s =
     (case halCall H halCall_setAmplitude
             (IVibrator_setAmplitude H (static_cast_uint32 amplitude)) s of
        (ret, s') \<Rightarrow>
          (let status = withDefault ret UNKNOWN_ERROR
           in if status \<noteq> OK
              then ALOGE ''Failed to set vibrator amplitude (%PRIu32).'' [ArgStatus status] s'
              else s'))"

text \<open>
  The frame of \<^verbatim>\<open>vibratorPerformEffect\<close>: the process state and the two locals the callback
  captures by reference. The locals are declared without an initialiser
  (\<^verbatim>\<open>Status status; uint32_t lengthMs;\<close>); what they hold before the callback runs is
  given to the model as \<open>status0\<close> and \<open>lengthMs0\<close>.
\<close>

record ('w, 's) perform_frame = "('w, 's) state" +
  status :: Status
  lengthMs :: uint32_t

definition enter_frame :: "('w, 's) state \<Rightarrow> Status \<Rightarrow> uint32_t \<Rightarrow> ('w, 's) perform_frame" where
  "enter_frame s status0 lengthMs0 =
     \<lparr>static = static s, world = world s, trace = trace s,
      status = status0, lengthMs = lengthMs0\<rparr>"

definition leave_frame :: "('w, 's) perform_frame \<Rightarrow> ('w, 's) state" where
  "leave_frame f = \<lparr>static = static f, world = world f, trace = trace f\<rparr>"

definition callback :: "Status \<Rightarrow> uint32_t \<Rightarrow> ('w, 's) perform_frame \<Rightarrow> ('w, 's) perform_frame" where
  "callback retStatus retLengthMs f = f\<lparr>status := retStatus, lengthMs := retLengthMs\<rparr>"

text \<open>
  The \<^verbatim>\<open>if / else if / else\<close> of \<^verbatim>\<open>vibratorPerformEffect\<close>. The comparisons are made
  in 64 bits, on the signed \<^verbatim>\<open>effect\<close> and the zero-extended code of \<^verbatim>\<open>TICK\<close>.
\<close>

definition dispatch_effect ::
  "('w, 's) hal \<Rightarrow> jlong \<Rightarrow> jint \<Rightarrow> ('w, 's) perform_frame \<Rightarrow> ('w, 's) perform_frame" where
  "dispatch_effect H effect strength f =
     (let effectStrength = toEffectStrength H strength
      in if sint effect < 0 \<or> sint effect > uint (TICK H) then
           ALOGW ''Unable to perform haptic effect, invalid effect ID (%PRId32)''
             [ArgInt (sint (ucast effect :: 32 word))] f
         else if sint effect = uint (TICK H) then
           (case halCall H halCall_perform_1_1
                   (IVibrator_1_1_perform_1_1 H (ucast effect) effectStrength callback) f of
              (ret, f') \<Rightarrow>
                if \<not> isOk ret
                then ALOGW ''Failed to perform effect (%PRId32), insufficient HAL version''
                       [ArgInt (sint (ucast effect :: 32 word))] f'
                else f')
         else
           (case halCall H halCall_perform
                   (IVibrator_perform H (ucast effect) effectStrength callback) f of
              (ret, f') \<Rightarrow>
                if \<not> isOk ret
                then ALOGW ''Failed to perform effect (%PRId32)''
                       [ArgInt (sint (ucast effect :: 32 word))] f'
                else f'))"

definition perform_failed_msg :: string where
  "perform_failed_msg =
     ''Failed to perform haptic effect: effect=%PRId64, strength=%PRId32, error=%PRIu32).''"

definition vibratorPerformEffect ::
  "('w, 's) hal \<Rightarrow> Status \<Rightarrow> uint32_t \<Rightarrow> jlong \<Rightarrow> jint \<Rightarrow> ('w, 's) state \<Rightarrow>
   jlong \<times> ('w, 's) state" where
  "vibratorPerformEffect H status0 lengthMs0 effect strength s =
     (let f = dispatch_effect H effect strength (enter_frame s status0 lengthMs0)
      in if status f = OK then (ucast (lengthMs f), leave_frame f)
         else if status f \<noteq> UNSUPPORTED_OPERATION then
           (- 1, leave_frame
                   (ALOGE perform_failed_msg
                      [ArgInt (sint effect), ArgInt (sint strength), ArgStatus (status f)] f))
         else (- 1, leave_frame f))"

subsection \<open>Reading a run\<close>

text \<open>The events a run from \<open>s\<close> to \<open>s'\<close> added to the trace.\<close>

definition new_events :: "('w, 's, 'y) state_scheme \<Rightarrow> ('w, 's, 'z) state_scheme \<Rightarrow> 's event list" where
  "new_events s s' = drop (length (trace s)) (trace s')"

fun is_reconnect :: "'s event \<Rightarrow> bool" where
  "is_reconnect (TryGetService i h) = True"
| "is_reconnect _ = False"

text \<open>The strength a \<^verbatim>\<open>perform\<close> or \<^verbatim>\<open>perform_1_1\<close> call was handed.\<close>

fun strength_of :: "'s event \<Rightarrow> 's option" where
  "strength_of (Call_perform h e st r) = Some st"
| "strength_of (Call_perform_1_1 h e st r) = Some st"
| "strength_of _ = None"

text \<open>
  The handle the first attempt of an invocation works on: the one cached by the instantiation,
  acquired now if this is its first run; none if the service was absent at that first run.
\<close>

definition cached_handle ::
  "('w, 's) hal \<Rightarrow> halCall_inst \<Rightarrow> ('w, 's, 'z) state_scheme \<Rightarrow> sp" where
  "cached_handle H k s =
     (let sl = static (static_init H k s) k
      in if sAvailable sl then sHal sl else None)"

text \<open>
  A process that has just started: no instantiation of \<^verbatim>\<open>halCall\<close> has run, its statics
  are zero-initialised.
\<close>

definition boot :: "(nat, 8 word) state" where
  "boot = \<lparr>static = (\<lambda>k. \<lparr>guard = False, sHal = None, sAvailable = False\<rparr>), world = 0, trace = []\<rparr>"

text \<open>
  A HAL to run the model on. Its world counts the calls made so far. \<^verbatim>\<open>getService\<close>
  answers \<open>g\<close> and \<^verbatim>\<open>tryGetService\<close> answers \<open>t\<close>; the calls whose number is in
  \<open>fails\<close> fail in transport, the others complete with \<open>reply\<close>. \<^verbatim>\<open>TICK\<close> has
  code 2 and a strength is kept as its low 8 bits.
\<close>

definition test_hal :: "sp \<Rightarrow> sp \<Rightarrow> nat list \<Rightarrow> Status \<times> uint32_t \<Rightarrow> (nat, 8 word) hal" where
  "test_hal g t fails reply =
     \<lparr>TICK = 2, toEffectStrength = ucast,
      getService = (\<lambda>i w. (g, w)),
      tryGetService = (\<lambda>i w. (t, w)),
      hal_ping = (\<lambda>h w. (if w \<in> set fails then FromStatus EX_TRANSACTION_FAILED else Value (), Suc w)),
      hal_on = (\<lambda>h x w. (if w \<in> set fails then FromStatus EX_TRANSACTION_FAILED else Value (fst reply), Suc w)),
      hal_off = (\<lambda>h w. (if w \<in> set fails then FromStatus EX_TRANSACTION_FAILED else Value (fst reply), Suc w)),
      hal_supportsAmplitudeControl =
        (\<lambda>h w. (if w \<in> set fails then FromStatus EX_TRANSACTION_FAILED else Value True, Suc w)),
      hal_setAmplitude =
        (\<lambda>h a w. (if w \<in> set fails then FromStatus EX_TRANSACTION_FAILED else Value (fst reply), Suc w)),
      hal_perform =
        (\<lambda>h e st w. (if w \<in> set fails then FromStatus EX_TRANSACTION_FAILED else Value reply, Suc w)),
      hal_perform_1_1 =
        (\<lambda>h e st w. (if w \<in> set fails then FromStatus EX_TRANSACTION_FAILED else Value reply, Suc w))\<rparr>"

section \<open>Proofs\<close>

subsection \<open>Conversions\<close>


lemma sint_ucast_32_64: "sint (ucast (d :: 32 word) :: 64 word) = uint d"
proof -
  have "uint d < 2 ^ 32"
    using uint_bounded [of d] by simp
  then have "uint d < 2 ^ 63"
    by simp
  moreover have "- (2 ^ 63) \<le> uint d"
    by (rule order_trans [OF _ uint_nonnegative]) simp
  ultimately show ?thesis
    by (simp add: signed_ucast_eq signed_take_bit_int_eq_self)
qed

lemma uint_ucast_effect:
  fixes effect :: "64 word" and t :: "32 word"
  assumes "0 \<le> sint effect" "sint effect \<le> uint t"
  shows "uint (ucast effect :: 32 word) = sint effect"
proof -
  have lt: "sint effect < 2 ^ 32"
    using assms(2) uint_bounded [of t] by simp
  then have "sint effect < 2 ^ 64"
    by simp
  with assms(1) have "uint effect = sint effect"
    by (simp add: uint_sint take_bit_int_eq_self)
  with assms(1) lt show ?thesis
    by (simp add: unsigned_ucast_eq take_bit_int_eq_self)
qed

lemma ucast_effect_TICK:
  fixes effect :: "64 word" and t :: "32 word"
  assumes "sint effect = uint t"
  shows "ucast effect = t"
proof -
  have "uint (ucast effect :: 32 word) = uint t"
    using uint_ucast_effect [of effect t] assms by simp
  then show ?thesis
    by (simp add: word_uint_eq_iff)
qed

subsection \<open>The loop of halCall, unrolled\<close>

lemma halCall_loop_0:
  "halCall_loop H k fn 0 ret s =
     (case attempt k fn s of
        (r1, s1) \<Rightarrow>
          if isOk r1 then (r1, s1)
          else (case attempt k fn (reconnect H k (ALOGE retry_msg [] s1)) of
                  (r2, s3) \<Rightarrow>
                    if isOk r2 then (r2, s3)
                    else (r2, reconnect H k (ALOGE retry_msg [] s3))))"
  by (simp add: halCall_loop.simps NUM_TRIES_def split: prod.splits)

lemmas halCall_perform_unfold =
  halCall_def halCall_loop_0 static_init_def reconnect_def attempt_def ALOGE_def
  IVibrator_perform_def IVibrator_1_1_perform_1_1_def with_callback_def hal_method_def
  callback_def NullptrStatus_def new_events_def cached_handle_def Let_def

lemmas halCall_splits = if_splits prod.splits option.splits Return.splits

lemma halCall_perform_facts:
  fixes f :: "('w, 's) perform_frame"
  assumes "halCall H halCall_perform (IVibrator_perform H e st callback) f = (ret, f')"
  shows "trace f' = trace f @ new_events f f'"
    and "\<forall>ev\<in>set (new_events f f'). is_call ev \<longrightarrow> (\<exists>h r. ev = Call_perform h e st r)"
    and "\<forall>ev\<in>set (new_events f f'). is_LogE ev \<longrightarrow> ev = LogE retry_msg []"
    and "last_perform (new_events f f') = Some (Value (x, d)) \<Longrightarrow>
           status f' = x \<and> lengthMs f' = d \<and> isOk ret \<and>
           length (filter is_LogE (new_events f f')) = length (filter is_reconnect (new_events f f')) \<and>
           length (filter is_reconnect (new_events f f')) \<le> 1"
    and "cached_handle H halCall_perform f = Some h \<Longrightarrow>
           \<exists>r. Call_perform h e st r \<in> set (new_events f f')"
    and "\<not> isOk ret \<Longrightarrow> status f' = status f \<and> lengthMs f' = lengthMs f"
  using assms
  by (auto simp: halCall_perform_unfold split: halCall_splits)

lemma halCall_perform_1_1_facts:
  fixes f :: "('w, 's) perform_frame"
  assumes "halCall H halCall_perform_1_1 (IVibrator_1_1_perform_1_1 H e st callback) f = (ret, f')"
  shows "trace f' = trace f @ new_events f f'"
    and "\<forall>ev\<in>set (new_events f f'). is_call ev \<longrightarrow> (\<exists>h r. ev = Call_perform_1_1 h e st r)"
    and "\<forall>ev\<in>set (new_events f f'). is_LogE ev \<longrightarrow> ev = LogE retry_msg []"
    and "last_perform (new_events f f') = Some (Value (x, d)) \<Longrightarrow>
           status f' = x \<and> lengthMs f' = d \<and> isOk ret \<and>
           length (filter is_LogE (new_events f f')) = length (filter is_reconnect (new_events f f')) \<and>
           length (filter is_reconnect (new_events f f')) \<le> 1"
    and "cached_handle H halCall_perform_1_1 f = Some h \<Longrightarrow>
           \<exists>r. Call_perform_1_1 h e st r \<in> set (new_events f f')"
    and "\<not> isOk ret \<Longrightarrow> status f' = status f \<and> lengthMs f' = lengthMs f"
  using assms
  by (auto simp: halCall_perform_unfold split: halCall_splits)

subsection \<open>Traces\<close>

lemma last_perform_append:
  "last_perform (xs @ ys) = (case last_perform ys of Some r \<Rightarrow> Some r | None \<Rightarrow> last_perform xs)"
  by (induction xs) (auto split: option.splits)

lemma new_events_snoc:
  assumes "trace f1 = trace f @ new_events f f1" and "trace f2 = trace f1 @ ys"
  shows "new_events f f2 = new_events f f1 @ ys"
proof -
  have "trace f2 = trace f @ (new_events f f1 @ ys)"
    using assms by simp
  then show ?thesis
    unfolding new_events_def [of f f2] by simp
qed

lemma new_events_same: "trace f1 = trace f \<Longrightarrow> new_events f f1 = []"
  by (simp add: new_events_def)

lemma new_events_cong:
  "trace a = trace a' \<Longrightarrow> trace b = trace b' \<Longrightarrow> new_events a b = new_events a' b'"
  by (simp add: new_events_def)

subsection \<open>vibratorPerformEffect\<close>

text \<open>What the dispatch block of \<^verbatim>\<open>vibratorPerformEffect\<close> leaves behind.\<close>

lemma dispatch_effect_invalid:
  "sint effect < 0 \<or> uint (TICK H) < sint effect \<Longrightarrow>
   dispatch_effect H effect strength f =
     ALOGW ''Unable to perform haptic effect, invalid effect ID (%PRId32)''
       [ArgInt (sint (ucast effect :: 32 word))] f"
  by (simp add: dispatch_effect_def)

lemma dispatch_tail:
  fixes f :: "('w, 's) perform_frame"
  assumes F1: "trace f1 = trace f @ new_events f f1"
      and F3: "\<forall>ev\<in>set (new_events f f1). is_LogE ev \<longrightarrow> ev = LogE retry_msg []"
      and F4: "last_perform (new_events f f1) = Some (Value (x, d)) \<Longrightarrow>
                 status f1 = x \<and> lengthMs f1 = d \<and> isOk ret \<and>
                 length (filter is_LogE (new_events f f1)) =
                   length (filter is_reconnect (new_events f f1)) \<and>
                 length (filter is_reconnect (new_events f f1)) \<le> 1"
      and f': "f' = (if \<not> isOk ret then ALOGW m as f1 else f1)"
  shows "trace f' = trace f @ new_events f f' \<and>
         (\<forall>ev\<in>set (new_events f f'). is_LogE ev \<longrightarrow> ev = LogE retry_msg []) \<and>
         (last_perform (new_events f f') = Some (Value (x, d)) \<longrightarrow>
            status f' = x \<and> lengthMs f' = d \<and>
            length (filter is_LogE (new_events f f')) =
              length (filter is_reconnect (new_events f f')) \<and>
            length (filter is_reconnect (new_events f f')) \<le> 1)"
proof (cases "isOk ret")
  case True
  then have "f' = f1"
    using f' by simp
  then show ?thesis
    using F1 F3 F4 by blast
next
  case False
  then have tr: "trace f' = trace f1 @ [LogW m as]"
    using f' by (simp add: ALOGW_def)
  have n: "new_events f f' = new_events f f1 @ [LogW m as]"
    by (rule new_events_snoc [OF F1 tr])
  have a: "trace f' = trace f @ new_events f f'"
    using F1 tr n by simp
  have b: "\<forall>ev\<in>set (new_events f f'). is_LogE ev \<longrightarrow> ev = LogE retry_msg []"
    using F3 by (simp add: n)
  have "last_perform (new_events f f') = last_perform (new_events f f1)"
    by (simp add: n last_perform_append)
  then have c: "last_perform (new_events f f') \<noteq> Some (Value (x, d))"
    using F4 False by auto
  show ?thesis
    using a b c by blast
qed

lemma dispatch_effect_facts:
  fixes f :: "('w, 's) perform_frame"
  assumes f': "dispatch_effect H effect strength f = f'"
  shows "trace f' = trace f @ new_events f f'"
    and "\<forall>ev\<in>set (new_events f f'). is_LogE ev \<longrightarrow> ev = LogE retry_msg []"
    and "last_perform (new_events f f') = Some (Value (x, d)) \<Longrightarrow>
           status f' = x \<and> lengthMs f' = d \<and>
           length (filter is_LogE (new_events f f')) = length (filter is_reconnect (new_events f f')) \<and>
           length (filter is_reconnect (new_events f f')) \<le> 1"
proof -
  let ?n = "new_events f f'"
  have "trace f' = trace f @ ?n \<and>
        (\<forall>ev\<in>set ?n. is_LogE ev \<longrightarrow> ev = LogE retry_msg []) \<and>
        (last_perform ?n = Some (Value (x, d)) \<longrightarrow>
           status f' = x \<and> lengthMs f' = d \<and>
           length (filter is_LogE ?n) = length (filter is_reconnect ?n) \<and>
           length (filter is_reconnect ?n) \<le> 1)"
  proof (cases "sint effect < 0 \<or> uint (TICK H) < sint effect")
    case True
    then have "f' = ALOGW ''Unable to perform haptic effect, invalid effect ID (%PRId32)''
       [ArgInt (sint (ucast effect :: 32 word))] f"
      using f' by (simp add: dispatch_effect_invalid)
    then show ?thesis
      by (simp add: ALOGW_def new_events_def)
  next
    case False
    show ?thesis
    proof (cases "sint effect = uint (TICK H)")
      case True
      obtain ret f1 where hc: "halCall H halCall_perform_1_1
          (IVibrator_1_1_perform_1_1 H (ucast effect) (toEffectStrength H strength) callback) f = (ret, f1)"
        by (cases "halCall H halCall_perform_1_1
          (IVibrator_1_1_perform_1_1 H (ucast effect) (toEffectStrength H strength) callback) f")
      have "f' = (if \<not> isOk ret
                  then ALOGW ''Failed to perform effect (%PRId32), insufficient HAL version''
                         [ArgInt (sint (ucast effect :: 32 word))] f1
                  else f1)"
        using f' hc True False by (simp add: dispatch_effect_def)
      with halCall_perform_1_1_facts(1,3,4) [OF hc] show ?thesis
        by (rule dispatch_tail)
    next
      case nt: False
      obtain ret f1 where hc: "halCall H halCall_perform
          (IVibrator_perform H (ucast effect) (toEffectStrength H strength) callback) f = (ret, f1)"
        by (cases "halCall H halCall_perform
          (IVibrator_perform H (ucast effect) (toEffectStrength H strength) callback) f")
      have "f' = (if \<not> isOk ret
                  then ALOGW ''Failed to perform effect (%PRId32)''
                         [ArgInt (sint (ucast effect :: 32 word))] f1
                  else f1)"
        using f' hc nt False by (simp add: dispatch_effect_def)
      with halCall_perform_facts(1,3,4) [OF hc] show ?thesis
        by (rule dispatch_tail)
    qed
  qed
  then show "trace f' = trace f @ new_events f f'"
    and "\<forall>ev\<in>set (new_events f f'). is_LogE ev \<longrightarrow> ev = LogE retry_msg []"
    and "last_perform (new_events f f') = Some (Value (x, d)) \<Longrightarrow>
           status f' = x \<and> lengthMs f' = d \<and>
           length (filter is_LogE (new_events f f')) = length (filter is_reconnect (new_events f f')) \<and>
           length (filter is_reconnect (new_events f f')) \<le> 1"
    by blast+
qed


lemma dispatch_calls_tail:
  assumes F1: "trace f1 = trace f @ new_events f f1"
      and f': "f' = (if \<not> isOk ret then ALOGW m as f1 else f1)"
  shows "set (new_events f f') \<subseteq> insert (LogW m as) (set (new_events f f1))"
    and "set (new_events f f1) \<subseteq> set (new_events f f')"
proof -
  have "new_events f f' = new_events f f1 \<or> new_events f f' = new_events f f1 @ [LogW m as]"
  proof (cases "isOk ret")
    case True
    then show ?thesis using f' by simp
  next
    case False
    then have "trace f' = trace f1 @ [LogW m as]"
      using f' by (simp add: ALOGW_def)
    from new_events_snoc [OF F1 this] show ?thesis by simp
  qed
  then show "set (new_events f f') \<subseteq> insert (LogW m as) (set (new_events f f1))"
    and "set (new_events f f1) \<subseteq> set (new_events f f')"
    by auto
qed

lemma dispatch_effect_TICK_calls:
  fixes f :: "('w, 's) perform_frame"
  assumes f': "dispatch_effect H effect strength f = f'"
      and tick: "sint effect = uint (TICK H)"
  shows "\<forall>ev\<in>set (new_events f f'). is_call ev \<longrightarrow>
           (\<exists>h r. ev = Call_perform_1_1 h (ucast effect) (toEffectStrength H strength) r)"
    and "cached_handle H halCall_perform_1_1 f = Some h \<Longrightarrow>
           \<exists>r. Call_perform_1_1 h (ucast effect) (toEffectStrength H strength) r \<in> set (new_events f f')"
proof -
  have range: "\<not> (sint effect < 0 \<or> uint (TICK H) < sint effect)"
    using tick by simp
  obtain ret f1 where hc: "halCall H halCall_perform_1_1
      (IVibrator_1_1_perform_1_1 H (ucast effect) (toEffectStrength H strength) callback) f = (ret, f1)"
    by (cases "halCall H halCall_perform_1_1
      (IVibrator_1_1_perform_1_1 H (ucast effect) (toEffectStrength H strength) callback) f")
  have eq: "f' = (if \<not> isOk ret
              then ALOGW ''Failed to perform effect (%PRId32), insufficient HAL version''
                     [ArgInt (sint (ucast effect :: 32 word))] f1
              else f1)"
    using f' hc tick range by (simp add: dispatch_effect_def)
  note T = dispatch_calls_tail [OF halCall_perform_1_1_facts(1) [OF hc] eq]
  show "\<forall>ev\<in>set (new_events f f'). is_call ev \<longrightarrow>
           (\<exists>h r. ev = Call_perform_1_1 h (ucast effect) (toEffectStrength H strength) r)"
    using T(1) halCall_perform_1_1_facts(2) [OF hc] by auto
  show "\<exists>r. Call_perform_1_1 h (ucast effect) (toEffectStrength H strength) r \<in> set (new_events f f')"
    if "cached_handle H halCall_perform_1_1 f = Some h"
    using T(2) halCall_perform_1_1_facts(5) [OF hc that] by auto
qed

lemma dispatch_effect_base_calls:
  fixes f :: "('w, 's) perform_frame"
  assumes f': "dispatch_effect H effect strength f = f'"
      and range: "0 \<le> sint effect" "sint effect \<le> uint (TICK H)"
      and tick: "sint effect \<noteq> uint (TICK H)"
  shows "\<forall>ev\<in>set (new_events f f'). is_call ev \<longrightarrow>
           (\<exists>h r. ev = Call_perform h (ucast effect) (toEffectStrength H strength) r)"
    and "cached_handle H halCall_perform f = Some h \<Longrightarrow>
           \<exists>r. Call_perform h (ucast effect) (toEffectStrength H strength) r \<in> set (new_events f f')"
proof -
  have range: "\<not> (sint effect < 0 \<or> uint (TICK H) < sint effect)"
    using range by simp
  obtain ret f1 where hc: "halCall H halCall_perform
      (IVibrator_perform H (ucast effect) (toEffectStrength H strength) callback) f = (ret, f1)"
    by (cases "halCall H halCall_perform
      (IVibrator_perform H (ucast effect) (toEffectStrength H strength) callback) f")
  have eq: "f' = (if \<not> isOk ret
              then ALOGW ''Failed to perform effect (%PRId32)''
                     [ArgInt (sint (ucast effect :: 32 word))] f1
              else f1)"
    using f' hc tick range by (simp add: dispatch_effect_def)
  note T = dispatch_calls_tail [OF halCall_perform_facts(1) [OF hc] eq]
  show "\<forall>ev\<in>set (new_events f f'). is_call ev \<longrightarrow>
           (\<exists>h r. ev = Call_perform h (ucast effect) (toEffectStrength H strength) r)"
    using T(1) halCall_perform_facts(2) [OF hc] by auto
  show "\<exists>r. Call_perform h (ucast effect) (toEffectStrength H strength) r \<in> set (new_events f f')"
    if "cached_handle H halCall_perform f = Some h"
    using T(2) halCall_perform_facts(5) [OF hc that] by auto
qed

text \<open>From the frame back to the native method.\<close>

lemma cached_handle_enter_frame:
  "cached_handle H k (enter_frame s status0 lengthMs0) = cached_handle H k s"
  by (simp add: cached_handle_def static_init_def enter_frame_def Let_def split: prod.splits)

lemma performEffect_run:
  assumes run: "vibratorPerformEffect H status0 lengthMs0 effect strength s = (res, s')"
      and f': "f' = dispatch_effect H effect strength (enter_frame s status0 lengthMs0)"
  shows "res = (if status f' = OK then ucast (lengthMs f') else - 1)"
    and "new_events s s' =
           new_events (enter_frame s status0 lengthMs0) f' @
           (if status f' \<noteq> OK \<and> status f' \<noteq> UNSUPPORTED_OPERATION
            then [LogE perform_failed_msg
                    [ArgInt (sint effect), ArgInt (sint strength), ArgStatus (status f')]]
            else [])"
proof -
  let ?f = "enter_frame s status0 lengthMs0"
  show "res = (if status f' = OK then ucast (lengthMs f') else - 1)"
    using run f' by (auto simp: vibratorPerformEffect_def Let_def split: if_splits)
  have pre: "trace f' = trace ?f @ new_events ?f f'"
    using dispatch_effect_facts(1) [OF f' [symmetric]] .
  have tr: "trace s' = trace f' @
           (if status f' \<noteq> OK \<and> status f' \<noteq> UNSUPPORTED_OPERATION
            then [LogE perform_failed_msg
                    [ArgInt (sint effect), ArgInt (sint strength), ArgStatus (status f')]]
            else [])"
    using run f' by (auto simp: vibratorPerformEffect_def Let_def leave_frame_def ALOGE_def split: if_splits)
  have "new_events ?f s' = new_events ?f f' @
           (if status f' \<noteq> OK \<and> status f' \<noteq> UNSUPPORTED_OPERATION
            then [LogE perform_failed_msg
                    [ArgInt (sint effect), ArgInt (sint strength), ArgStatus (status f')]]
            else [])"
    by (rule new_events_snoc [OF pre tr])
  moreover have "new_events s s' = new_events ?f s'"
    by (rule new_events_cong) (simp_all add: enter_frame_def)
  ultimately show "new_events s s' =
           new_events (enter_frame s status0 lengthMs0) f' @
           (if status f' \<noteq> OK \<and> status f' \<noteq> UNSUPPORTED_OPERATION
            then [LogE perform_failed_msg
                    [ArgInt (sint effect), ArgInt (sint strength), ArgStatus (status f')]]
            else [])"
    by simp
qed

lemma performEffect_last_perform:
  assumes run: "vibratorPerformEffect H status0 lengthMs0 effect strength s = (res, s')"
      and f': "f' = dispatch_effect H effect strength (enter_frame s status0 lengthMs0)"
  shows "last_perform (new_events s s') = last_perform (new_events (enter_frame s status0 lengthMs0) f')"
  by (simp add: performEffect_run(2) [OF run f'] last_perform_append)

text \<open>
  C7: when the last \<^verbatim>\<open>perform\<close> or \<^verbatim>\<open>perform_1_1\<close> call of the run completed with status
  \<open>OK\<close> and duration \<open>d\<close>, \<^verbatim>\<open>vibratorPerformEffect\<close> returns exactly \<open>d\<close>: the 32-bit
  duration zero-extended to the \<^verbatim>\<open>jlong\<close> result.
\<close>

theorem performEffect_returns_duration:
  assumes run: "vibratorPerformEffect H status0 lengthMs0 effect strength s = (res, s')"
      and ok: "last_perform (new_events s s') = Some (Value (OK, d))"
  shows "res = ucast d \<and> sint res = uint d"
proof -
  define f' where "f' = dispatch_effect H effect strength (enter_frame s status0 lengthMs0)"
  have "last_perform (new_events (enter_frame s status0 lengthMs0) f') = Some (Value (OK, d))"
    using ok performEffect_last_perform [OF run f'_def] by simp
  then have "status f' = OK" "lengthMs f' = d"
    using dispatch_effect_facts(3) [OF f'_def [symmetric]] by blast+
  then have "res = ucast d"
    using performEffect_run(1) [OF run f'_def] by simp
  then show ?thesis
    by (simp add: sint_ucast_32_64)
qed



subsection \<open>Runs on the test HAL\<close>


lemmas run_defs =
  vibratorPerformEffect_def dispatch_effect_def enter_frame_def leave_frame_def
  vibratorInit_def vibratorExists_def vibratorOn_def vibratorOff_def
  vibratorSupportsAmplitudeControl_def vibratorSetAmplitude_def static_cast_uint32_def
  IVibrator_ping_def IVibrator_on_def IVibrator_off_def IVibrator_supportsAmplitudeControl_def
  IVibrator_setAmplitude_def
  halCall_perform_unfold ALOGW_def test_hal_def boot_def retry_msg_def perform_failed_msg_def







theorem performEffect_returns_duration_witness:
  "last_perform (new_events boot (snd (vibratorPerformEffect
       (test_hal (Some 0) (Some 1) [] (OK, 12)) UNKNOWN_ERROR 7 2 2 boot))) = Some (Value (OK, 12)) \<and>
   fst (vibratorPerformEffect (test_hal (Some 0) (Some 1) [] (OK, 12)) UNKNOWN_ERROR 7 2 2 boot) = 12"
proof -
  let ?run = "vibratorPerformEffect (test_hal (Some 0) (Some 1) [] (OK, 12)) UNKNOWN_ERROR 7 2 2 boot"
  have l: "last_perform (new_events boot (snd ?run)) = Some (Value (OK, 12))"
    by (simp add: run_defs)
  from performEffect_returns_duration [OF prod.collapse [symmetric] l]
  have "fst ?run = ucast (12 :: 32 word)"
    by blast
  then show ?thesis
    using l by simp
qed

lemma performEffect_calls:
  assumes run: "vibratorPerformEffect H status0 lengthMs0 effect strength s = (res, s')"
      and f': "f' = dispatch_effect H effect strength (enter_frame s status0 lengthMs0)"
  shows "set (new_events (enter_frame s status0 lengthMs0) f') \<subseteq> set (new_events s s')"
    and "ev \<in> set (new_events s s') \<Longrightarrow> is_call ev \<Longrightarrow>
           ev \<in> set (new_events (enter_frame s status0 lengthMs0) f')"
  by (auto simp: performEffect_run(2) [OF run f'] split: if_splits)

text \<open>
  C4: for an effect in \<open>[0, TICK]\<close>. When the effect is \<open>TICK\<close>, every HAL call of the run is
  \<^verbatim>\<open>perform_1_1\<close> with \<open>TICK\<close> and the cast strength, none is \<^verbatim>\<open>perform\<close>, and the
  call is made on the handle the \<^verbatim>\<open>perform_1_1\<close> instantiation has cached. Otherwise every
  HAL call is \<^verbatim>\<open>perform\<close> with the effect's code and the cast strength, made on the handle
  the \<^verbatim>\<open>perform\<close> instantiation has cached. The code handed over is the effect identifier.
\<close>

theorem performEffect_routing:
  assumes run: "vibratorPerformEffect H status0 lengthMs0 effect strength s = (res, s')"
      and range: "0 \<le> sint effect" "sint effect \<le> uint (TICK H)"
  shows "(sint effect = uint (TICK H) \<longrightarrow>
            (\<forall>ev\<in>set (new_events s s'). is_call ev \<longrightarrow>
               (\<exists>h r. ev = Call_perform_1_1 h (TICK H) (toEffectStrength H strength) r)) \<and>
            (\<forall>h. cached_handle H halCall_perform_1_1 s = Some h \<longrightarrow>
               (\<exists>r. Call_perform_1_1 h (TICK H) (toEffectStrength H strength) r
                      \<in> set (new_events s s')))) \<and>
         (sint effect \<noteq> uint (TICK H) \<longrightarrow>
            (\<forall>ev\<in>set (new_events s s'). is_call ev \<longrightarrow>
               (\<exists>h r. ev = Call_perform h (ucast effect) (toEffectStrength H strength) r)) \<and>
            (\<forall>h. cached_handle H halCall_perform s = Some h \<longrightarrow>
               (\<exists>r. Call_perform h (ucast effect) (toEffectStrength H strength) r
                      \<in> set (new_events s s')))) \<and>
         uint (ucast effect :: uint32_t) = sint effect"
proof -
  define f where "f = enter_frame s status0 lengthMs0"
  define f' where "f' = dispatch_effect H effect strength (enter_frame s status0 lengthMs0)"
  note C = performEffect_calls [OF run f'_def]
  have ch: "cached_handle H k f = cached_handle H k s" for k
    by (simp add: f_def cached_handle_enter_frame)
  have tick: ?thesis if t: "sint effect = uint (TICK H)"
  proof -
    note D = dispatch_effect_TICK_calls [OF f'_def [symmetric] t]
    have u: "ucast effect = TICK H"
      using t by (rule ucast_effect_TICK)
    have "\<exists>h r. ev = Call_perform_1_1 h (TICK H) (toEffectStrength H strength) r"
      if "ev \<in> set (new_events s s')" "is_call ev" for ev
      using D(1) C(2) [OF that] that(2) u by auto
    moreover have "\<exists>r. Call_perform_1_1 h (TICK H) (toEffectStrength H strength) r
                      \<in> set (new_events s s')"
      if "cached_handle H halCall_perform_1_1 s = Some h" for h
      using D(2) [of h] that C(1) u by (auto simp: cached_handle_enter_frame)
    ultimately show ?thesis
      using t uint_ucast_effect [OF range] by blast
  qed
  have base: ?thesis if t: "sint effect \<noteq> uint (TICK H)"
  proof -
    note D = dispatch_effect_base_calls [OF f'_def [symmetric] range t]
    have "\<exists>h r. ev = Call_perform h (ucast effect) (toEffectStrength H strength) r"
      if "ev \<in> set (new_events s s')" "is_call ev" for ev
      using D(1) C(2) [OF that] that(2) by auto
    moreover have "\<exists>r. Call_perform h (ucast effect) (toEffectStrength H strength) r
                      \<in> set (new_events s s')"
      if "cached_handle H halCall_perform s = Some h" for h
      using D(2) [of h] that C(1) by (auto simp: cached_handle_enter_frame)
    ultimately show ?thesis
      using t uint_ucast_effect [OF range] by blast
  qed
  from tick base show ?thesis
    by blast
qed


theorem performEffect_routing_witness:
  "0 \<le> sint (2 :: jlong) \<and>
   sint (2 :: jlong) = uint (TICK (test_hal (Some 0) (Some 1) [] (OK, 12))) \<and>
   cached_handle (test_hal (Some 0) (Some 1) [] (OK, 12)) halCall_perform_1_1 boot = Some 0 \<and>
   (\<exists>r. Call_perform_1_1 0 2 (2 :: 8 word) r \<in> set (new_events boot (snd (vibratorPerformEffect
       (test_hal (Some 0) (Some 1) [] (OK, 12)) UNKNOWN_ERROR 7 2 2 boot)))) \<and>
   0 \<le> sint (0 :: jlong) \<and>
   sint (0 :: jlong) < uint (TICK (test_hal (Some 0) (Some 1) [] (OK, 12))) \<and>
   cached_handle (test_hal (Some 0) (Some 1) [] (OK, 12)) halCall_perform boot = Some 0 \<and>
   (\<exists>r. Call_perform 0 0 (2 :: 8 word) r \<in> set (new_events boot (snd (vibratorPerformEffect
       (test_hal (Some 0) (Some 1) [] (OK, 12)) UNKNOWN_ERROR 7 0 2 boot))))"
proof -
  let ?H = "test_hal (Some 0) (Some 1) [] (OK, 12)"
  have r2: "0 \<le> sint (2 :: jlong)" "sint (2 :: jlong) \<le> uint (TICK ?H)"
    and t2: "sint (2 :: jlong) = uint (TICK ?H)"
    and r0: "0 \<le> sint (0 :: jlong)" "sint (0 :: jlong) \<le> uint (TICK ?H)"
    and t0: "sint (0 :: jlong) \<noteq> uint (TICK ?H)" "sint (0 :: jlong) < uint (TICK ?H)"
    by (simp_all add: test_hal_def)
  have c: "cached_handle ?H halCall_perform_1_1 boot = Some 0"
      "cached_handle ?H halCall_perform boot = Some 0"
    by (simp_all add: cached_handle_def static_init_def test_hal_def boot_def)
  have "\<exists>r. Call_perform_1_1 0 (TICK ?H) (toEffectStrength ?H 2) r
          \<in> set (new_events boot (snd (vibratorPerformEffect ?H UNKNOWN_ERROR 7 2 2 boot)))"
    using performEffect_routing [OF prod.collapse [symmetric] r2] t2 c(1) by blast
  moreover have "\<exists>r. Call_perform 0 (ucast (0 :: jlong)) (toEffectStrength ?H 2) r
          \<in> set (new_events boot (snd (vibratorPerformEffect ?H UNKNOWN_ERROR 7 0 2 boot)))"
    using performEffect_routing [OF prod.collapse [symmetric] r0] t0(1) c(2) by blast
  ultimately show ?thesis
    using r2 t2 r0 t0 c by (simp add: test_hal_def)
qed

text \<open>
  C10: for an effect in \<open>[0, TICK]\<close> and any \<^verbatim>\<open>jint\<close> strength whatsoever, every HAL call
  of the run carries \<^verbatim>\<open>static_cast<EffectStrength>(strength)\<close>, and when the instantiation
  the effect is routed to has a handle cached such a call is made: no strength is turned away.
\<close>

theorem performEffect_strength_unchecked:
  assumes run: "vibratorPerformEffect H status0 lengthMs0 effect strength s = (res, s')"
      and range: "0 \<le> sint effect" "sint effect \<le> uint (TICK H)"
  shows "(\<forall>ev\<in>set (new_events s s'). is_call ev \<longrightarrow>
            strength_of ev = Some (toEffectStrength H strength)) \<and>
         (\<forall>h. cached_handle H
                 (if sint effect = uint (TICK H) then halCall_perform_1_1 else halCall_perform) s =
               Some h \<longrightarrow>
            (\<exists>ev\<in>set (new_events s s'). is_call ev \<and>
               strength_of ev = Some (toEffectStrength H strength)))"
proof -
  define f' where "f' = dispatch_effect H effect strength (enter_frame s status0 lengthMs0)"
  note C = performEffect_calls [OF run f'_def]
  show ?thesis
  proof (cases "sint effect = uint (TICK H)")
    case True
    note D = dispatch_effect_TICK_calls [OF f'_def [symmetric] True]
    have "strength_of ev = Some (toEffectStrength H strength)"
      if "ev \<in> set (new_events s s')" "is_call ev" for ev
      using D(1) C(2) [OF that] that(2) by auto
    moreover have "\<exists>ev\<in>set (new_events s s'). is_call ev \<and>
               strength_of ev = Some (toEffectStrength H strength)"
      if ch: "cached_handle H halCall_perform_1_1 s = Some h" for h
    proof -
      obtain r where "Call_perform_1_1 h (ucast effect) (toEffectStrength H strength) r
          \<in> set (new_events (enter_frame s status0 lengthMs0) f')"
        using D(2) [of h] ch by (auto simp: cached_handle_enter_frame)
      then have "Call_perform_1_1 h (ucast effect) (toEffectStrength H strength) r
          \<in> set (new_events s s')"
        using C(1) by blast
      then show ?thesis
        by (rule bexI [rotated]) simp
    qed
    ultimately show ?thesis
      using True by auto
  next
    case False
    note D = dispatch_effect_base_calls [OF f'_def [symmetric] range False]
    have "strength_of ev = Some (toEffectStrength H strength)"
      if "ev \<in> set (new_events s s')" "is_call ev" for ev
      using D(1) C(2) [OF that] that(2) by auto
    moreover have "\<exists>ev\<in>set (new_events s s'). is_call ev \<and>
               strength_of ev = Some (toEffectStrength H strength)"
      if ch: "cached_handle H halCall_perform s = Some h" for h
    proof -
      obtain r where "Call_perform h (ucast effect) (toEffectStrength H strength) r
          \<in> set (new_events (enter_frame s status0 lengthMs0) f')"
        using D(2) [of h] ch by (auto simp: cached_handle_enter_frame)
      then have "Call_perform h (ucast effect) (toEffectStrength H strength) r
          \<in> set (new_events s s')"
        using C(1) by blast
      then show ?thesis
        by (rule bexI [rotated]) simp
    qed
    ultimately show ?thesis
      using False by auto
  qed
qed

theorem performEffect_strength_unchecked_witness:
  "0 \<le> sint (1 :: jlong) \<and>
   sint (1 :: jlong) \<le> uint (TICK (test_hal (Some 0) (Some 1) [] (OK, 12))) \<and>
   cached_handle (test_hal (Some 0) (Some 1) [] (OK, 12)) halCall_perform boot = Some 0 \<and>
   new_events boot (snd (vibratorPerformEffect
       (test_hal (Some 0) (Some 1) [] (OK, 12)) UNKNOWN_ERROR 7 1 (- 7) boot)) =
     [GetService IVibrator (Some 0), Call_perform 0 1 249 (Value (OK, 12))] \<and>
   list_all (\<lambda>ev. \<not> is_call ev \<or> strength_of ev = Some (249 :: 8 word))
     (new_events boot (snd (vibratorPerformEffect
       (test_hal (Some 0) (Some 1) [] (OK, 12)) UNKNOWN_ERROR 7 1 (- 7) boot)))"
proof -
  let ?H = "test_hal (Some 0) (Some 1) [] (OK, 12)"
  let ?run = "vibratorPerformEffect ?H UNKNOWN_ERROR 7 1 (- 7) boot"
  have r: "0 \<le> sint (1 :: jlong)" "sint (1 :: jlong) \<le> uint (TICK ?H)"
    by (simp_all add: test_hal_def)
  have c: "cached_handle ?H halCall_perform boot = Some 0"
    by (simp add: cached_handle_def static_init_def test_hal_def boot_def)
  have n: "new_events boot (snd ?run) =
     [GetService IVibrator (Some 0), Call_perform 0 1 249 (Value (OK, 12))]"
    by (simp add: run_defs)
  have s: "toEffectStrength ?H (- 7) = 249"
    by (simp add: test_hal_def)
  have "\<forall>ev\<in>set (new_events boot (snd ?run)). is_call ev \<longrightarrow>
            strength_of ev = Some (toEffectStrength ?H (- 7))"
    using performEffect_strength_unchecked [OF prod.collapse [symmetric] r] by blast
  then have "list_all (\<lambda>ev. \<not> is_call ev \<or> strength_of ev = Some (249 :: 8 word))
     (new_events boot (snd ?run))"
    unfolding s by (auto simp: list_all_iff)
  then show ?thesis
    using r c n by simp
qed




subsection \<open>setAmplitude\<close>

lemma static_cast_uint32_same: "static_cast_uint32 x = x"
  by (simp add: static_cast_uint32_def)

lemma uint_static_cast_uint32: "uint (static_cast_uint32 x) = sint x mod 2 ^ 32"
  by (simp add: static_cast_uint32_def uint_sint take_bit_eq_mod)

lemma uint_amplitude_byte:
  "uint (ucast (static_cast_uint32 amplitude) :: uint8_t) = sint amplitude mod 256"
proof -
  have "uint (ucast (static_cast_uint32 amplitude) :: uint8_t) =
          (sint amplitude mod 2 ^ 32) mod 2 ^ 8"
    by (simp add: unsigned_ucast_eq take_bit_eq_mod uint_static_cast_uint32)
  also have "\<dots> = sint amplitude mod 2 ^ 8"
    by (rule mod_mod_cancel) simp
  finally show ?thesis
    by simp
qed

lemma amplitude_byte_verbatim_iff:
  "(uint (ucast (static_cast_uint32 amplitude) :: uint8_t) = sint amplitude) =
     (0 \<le> sint amplitude \<and> sint amplitude \<le> 255)"
proof -
  have "(sint amplitude mod 256 = sint amplitude) = (0 \<le> sint amplitude \<and> sint amplitude < 256)"
    by (auto simp: mod_pos_pos_trivial)
  then show ?thesis
    by (auto simp: uint_amplitude_byte)
qed

lemma halCall_setAmplitude_facts:
  assumes "halCall H halCall_setAmplitude (IVibrator_setAmplitude H a) s = (ret, s')"
  shows "trace s' = trace s @ new_events s s'"
    and "\<forall>ev\<in>set (new_events s s'). is_call ev \<longrightarrow>
           (\<exists>h r. ev = Call_setAmplitude h (ucast a) r)"
    and "cached_handle H halCall_setAmplitude s = Some h \<Longrightarrow>
           \<exists>r. Call_setAmplitude h (ucast a) r \<in> set (new_events s s')"
  using assms
  by (auto simp: halCall_perform_unfold IVibrator_setAmplitude_def split: halCall_splits)

text \<open>
  C8, as the code has it: for every \<^verbatim>\<open>jint\<close> amplitude, negative ones included, nothing is
  checked or clamped: every HAL call of \<^verbatim>\<open>vibratorSetAmplitude\<close> is \<^verbatim>\<open>setAmplitude\<close>,
  and it is made whenever the instantiation has a handle cached. What the service receives is the
  amplitude cast to \<^verbatim>\<open>uint32_t\<close> and then converted to the method's \<^verbatim>\<open>uint8_t\<close>
  parameter: the amplitude modulo 256, which is the amplitude itself exactly when it lies in
  \<open>[0, 255]\<close>.
\<close>

theorem setAmplitude_low_byte:
  assumes run: "vibratorSetAmplitude H amplitude s = s'"
  shows "(\<forall>ev\<in>set (new_events s s'). is_call ev \<longrightarrow>
            (\<exists>h r. ev = Call_setAmplitude h (ucast (static_cast_uint32 amplitude)) r)) \<and>
         (\<forall>h. cached_handle H halCall_setAmplitude s = Some h \<longrightarrow>
            (\<exists>r. Call_setAmplitude h (ucast (static_cast_uint32 amplitude)) r
                   \<in> set (new_events s s'))) \<and>
         uint (static_cast_uint32 amplitude) = sint amplitude mod 2 ^ 32 \<and>
         uint (ucast (static_cast_uint32 amplitude) :: uint8_t) = sint amplitude mod 256 \<and>
         ((uint (ucast (static_cast_uint32 amplitude) :: uint8_t) = sint amplitude) =
            (0 \<le> sint amplitude \<and> sint amplitude \<le> 255))"
proof -
  obtain ret s1 where hc: "halCall H halCall_setAmplitude
      (IVibrator_setAmplitude H (static_cast_uint32 amplitude)) s = (ret, s1)"
    by (cases "halCall H halCall_setAmplitude
      (IVibrator_setAmplitude H (static_cast_uint32 amplitude)) s")
  note F = halCall_setAmplitude_facts [OF hc]
  have "trace s' = trace s1 @
          (if withDefault ret UNKNOWN_ERROR \<noteq> OK
           then [LogE ''Failed to set vibrator amplitude (%PRIu32).''
                   [ArgStatus (withDefault ret UNKNOWN_ERROR)]]
           else [])"
    using run hc by (auto simp: vibratorSetAmplitude_def ALOGE_def Let_def)
  from new_events_snoc [OF F(1) this]
  have n: "new_events s s' = new_events s s1 @
          (if withDefault ret UNKNOWN_ERROR \<noteq> OK
           then [LogE ''Failed to set vibrator amplitude (%PRIu32).''
                   [ArgStatus (withDefault ret UNKNOWN_ERROR)]]
           else [])" .
  have "\<exists>h r. ev = Call_setAmplitude h (ucast (static_cast_uint32 amplitude)) r"
    if "ev \<in> set (new_events s s')" "is_call ev" for ev
    using that F(2) by (auto simp: n split: if_splits)
  moreover have "\<exists>r. Call_setAmplitude h (ucast (static_cast_uint32 amplitude)) r
                   \<in> set (new_events s s')"
    if ch: "cached_handle H halCall_setAmplitude s = Some h" for h
    using F(3) [OF ch] by (auto simp: n)
  ultimately show ?thesis
    using uint_static_cast_uint32 [of amplitude] uint_amplitude_byte [of amplitude]
      amplitude_byte_verbatim_iff [of amplitude]
    by blast
qed

lemma amplitude_bytes:
  "(ucast (static_cast_uint32 128) :: uint8_t) = 128"
  "(ucast (static_cast_uint32 256) :: uint8_t) = 0"
  "(ucast (static_cast_uint32 (- 1)) :: uint8_t) = 255"
  by code_simp+

theorem setAmplitude_low_byte_witness:
  "cached_handle (test_hal (Some 0) (Some 1) [] (OK, 0)) halCall_setAmplitude boot = Some 0 \<and>
   (\<exists>r. Call_setAmplitude 0 128 r \<in>
      set (new_events boot (vibratorSetAmplitude (test_hal (Some 0) (Some 1) [] (OK, 0)) 128 boot))) \<and>
   0 \<le> sint (128 :: jint) \<and> sint (128 :: jint) \<le> 255 \<and>
   uint (ucast (static_cast_uint32 128) :: uint8_t) = sint (128 :: jint)"
proof -
  let ?H = "test_hal (Some 0) (Some 1) [] (OK, 0)"
  have c: "cached_handle ?H halCall_setAmplitude boot = Some 0"
    by (simp add: cached_handle_def static_init_def test_hal_def boot_def)
  have r: "0 \<le> sint (128 :: jint)" "sint (128 :: jint) \<le> 255"
    by simp_all
  note T = setAmplitude_low_byte [where H = ?H and amplitude = 128 and s = boot, OF refl]
  have "\<exists>r. Call_setAmplitude 0 (ucast (static_cast_uint32 128)) r \<in>
      set (new_events boot (vibratorSetAmplitude ?H 128 boot))"
    using T c by blast
  then have "\<exists>r. Call_setAmplitude 0 128 r \<in>
      set (new_events boot (vibratorSetAmplitude ?H 128 boot))"
    by (simp only: amplitude_bytes)
  moreover have "uint (ucast (static_cast_uint32 128) :: uint8_t) = sint (128 :: jint)"
    using T r by blast
  ultimately show ?thesis
    using c r by blast
qed

text \<open>
  C8 as stated fails: amplitude 256 reaches the service as 0 and amplitude -1 as 255.
\<close>

theorem setAmplitude_verbatim_counterexample:
  "sint (256 :: jint) = 256 \<and>
   new_events boot (vibratorSetAmplitude (test_hal (Some 0) (Some 1) [] (OK, 0)) 256 boot) =
     [GetService IVibrator (Some 0), Call_setAmplitude 0 0 (Value OK)] \<and>
   sint (- 1 :: jint) = - 1 \<and>
   new_events boot (vibratorSetAmplitude (test_hal (Some 0) (Some 1) [] (OK, 0)) (- 1) boot) =
     [GetService IVibrator (Some 0), Call_setAmplitude 0 255 (Value OK)]"
proof -
  let ?H = "test_hal (Some 0) (Some 1) [] (OK, 0)"
  have run: "new_events boot (vibratorSetAmplitude ?H a boot) =
     [GetService IVibrator (Some 0), Call_setAmplitude 0 (ucast (static_cast_uint32 a)) (Value OK)]"
    for a
    by (simp add: vibratorSetAmplitude_def IVibrator_setAmplitude_def halCall_perform_unfold
        test_hal_def boot_def)
  show ?thesis
    using run [of 256] run [of "- 1"] by (simp add: amplitude_bytes)
qed

subsection \<open>The dispatcher\<close>

text \<open>
  C2: \<^verbatim>\<open>halCall\<close> makes no attempt when the service was absent at first use, and otherwise
  one or two. If the first attempt is ok in transport, whatever value it carries, its outcome and
  state are the result. If not, the retry message is logged, \<^verbatim>\<open>tryGetService\<close> is called once
  and the second attempt runs on the handle it gave; the outcome of that second attempt is the
  result, ok or not (after a second failure the message and \<^verbatim>\<open>tryGetService\<close> follow once
  more, after the attempts).
\<close>

theorem halCall_retry:
  assumes a1: "attempt k fn (static_init H k s) = (r1, s1)"
      and a2: "attempt k fn (reconnect H k (ALOGE retry_msg [] s1)) = (r2, s3)"
  shows "(\<not> sAvailable (static (static_init H k s) k) \<longrightarrow>
            halCall H k fn s = (NullptrStatus, static_init H k s)) \<and>
         (sAvailable (static (static_init H k s) k) \<and> isOk r1 \<longrightarrow>
            halCall H k fn s = (r1, s1)) \<and>
         (sAvailable (static (static_init H k s) k) \<and> \<not> isOk r1 \<and> isOk r2 \<longrightarrow>
            halCall H k fn s = (r2, s3)) \<and>
         (sAvailable (static (static_init H k s) k) \<and> \<not> isOk r1 \<and> \<not> isOk r2 \<longrightarrow>
            halCall H k fn s = (r2, reconnect H k (ALOGE retry_msg [] s3)))"
  using a1 a2 by (simp add: halCall_def halCall_loop_0 Let_def)

theorem halCall_retry_witness:
  "sAvailable (static (static_init (test_hal (Some 0) (Some 1) [0] (UNKNOWN_ERROR, 0)) halCall_on boot)
       halCall_on) \<and>
   \<not> isOk (fst (attempt halCall_on (IVibrator_on (test_hal (Some 0) (Some 1) [0] (UNKNOWN_ERROR, 0)) 5)
       (static_init (test_hal (Some 0) (Some 1) [0] (UNKNOWN_ERROR, 0)) halCall_on boot))) \<and>
   fst (halCall (test_hal (Some 0) (Some 1) [0] (UNKNOWN_ERROR, 0)) halCall_on
          (IVibrator_on (test_hal (Some 0) (Some 1) [0] (UNKNOWN_ERROR, 0)) 5) boot) =
     Value UNKNOWN_ERROR \<and>
   new_events boot (snd (halCall (test_hal (Some 0) (Some 1) [0] (UNKNOWN_ERROR, 0)) halCall_on
          (IVibrator_on (test_hal (Some 0) (Some 1) [0] (UNKNOWN_ERROR, 0)) 5) boot)) =
     [GetService IVibrator (Some 0),
      Call_on 0 5 (FromStatus EX_TRANSACTION_FAILED),
      LogE ''Failed to issue command to vibrator HAL. Retrying.'' [],
      TryGetService IVibrator (Some 1),
      Call_on 1 5 (Value UNKNOWN_ERROR)]"
proof -
  let ?H = "test_hal (Some 0) (Some 1) [0] (UNKNOWN_ERROR, 0)"
  let ?fn = "IVibrator_on ?H 5"
  let ?s0 = "static_init ?H halCall_on boot"
  let ?a1 = "attempt halCall_on ?fn ?s0"
  let ?a2 = "attempt halCall_on ?fn (reconnect ?H halCall_on (ALOGE retry_msg [] (snd ?a1)))"
  have av: "sAvailable (static ?s0 halCall_on)"
    by (simp add: static_init_def test_hal_def boot_def)
  have f1: "\<not> isOk (fst ?a1)"
    by (simp add: run_defs)
  have f2: "isOk (fst ?a2)"
    by (simp add: run_defs)
  have "halCall ?H halCall_on ?fn boot = (fst ?a2, snd ?a2)"
    using halCall_retry [where H = ?H and k = halCall_on and fn = ?fn and s = boot,
        OF prod.collapse [symmetric] prod.collapse [symmetric]] av f1 f2 by blast
  then have "fst (halCall ?H halCall_on ?fn boot) = fst ?a2"
    and "new_events boot (snd (halCall ?H halCall_on ?fn boot)) = new_events boot (snd ?a2)"
    by simp_all
  moreover have "fst ?a2 = Value UNKNOWN_ERROR"
    by (simp add: run_defs)
  moreover have "new_events boot (snd ?a2) =
     [GetService IVibrator (Some 0),
      Call_on 0 5 (FromStatus EX_TRANSACTION_FAILED),
      LogE ''Failed to issue command to vibrator HAL. Retrying.'' [],
      TryGetService IVibrator (Some 1),
      Call_on 1 5 (Value UNKNOWN_ERROR)]"
    by (simp add: run_defs)
  ultimately show ?thesis
    using av f1 by simp
qed


lemma static_init_trace:
  "\<exists>g. trace (static_init H k s) = trace s @ g \<and> filter is_reconnect g = []"
  by (auto simp: static_init_def split: prod.splits)

lemma new_events_append: "trace s' = trace s @ evs \<Longrightarrow> new_events s s' = evs"
  by (simp add: new_events_def)

lemma halCall_reconnects_only_after_failure:
  assumes fn: "\<And>h t r t'. fn h t = (r, t') \<Longrightarrow>
                 \<exists>evs. trace t' = trace t @ evs \<and> filter is_reconnect evs = []"
      and re: "filter is_reconnect (new_events s (snd (halCall H k fn s))) \<noteq> []"
  shows "sAvailable (static (static_init H k s) k) \<and>
         \<not> isOk (fst (attempt k fn (static_init H k s)))"
proof (rule ccontr)
  assume neg: "\<not> (sAvailable (static (static_init H k s) k) \<and>
         \<not> isOk (fst (attempt k fn (static_init H k s))))"
  let ?s0 = "static_init H k s"
  obtain g where g: "trace ?s0 = trace s @ g" "filter is_reconnect g = []"
    using static_init_trace by blast
  obtain r1 s1 where a1: "attempt k fn ?s0 = (r1, s1)"
    by (cases "attempt k fn ?s0")
  have "\<exists>evs. trace s1 = trace ?s0 @ evs \<and> filter is_reconnect evs = []"
  proof (cases "sHal (static ?s0 k)")
    case None
    then have "s1 = ?s0"
      using a1 by (simp add: attempt_def)
    then show ?thesis
      by simp
  next
    case (Some h)
    then have "fn h ?s0 = (r1, s1)"
      using a1 by (simp add: attempt_def)
    then show ?thesis
      by (rule fn)
  qed
  then obtain evs where evs: "trace s1 = trace ?s0 @ evs" "filter is_reconnect evs = []"
    by blast
  have "filter is_reconnect (new_events s (snd (halCall H k fn s))) = []"
  proof (cases "sAvailable (static ?s0 k)")
    case False
    then have "snd (halCall H k fn s) = ?s0"
      by (simp add: halCall_def Let_def)
    then show ?thesis
      using g by (simp add: new_events_append)
  next
    case True
    with neg a1 have "isOk r1"
      by simp
    then have "snd (halCall H k fn s) = s1"
      using True a1 by (simp add: halCall_def halCall_loop_0 Let_def)
    moreover have "trace s1 = trace s @ (g @ evs)"
      using g evs by simp
    ultimately show ?thesis
      using g evs by (simp add: new_events_append)
  qed
  with re show False
    by simp
qed

text \<open>
  C3, as the code has it: when the first \<^verbatim>\<open>getService\<close> of an instantiation gives no handle,
  \<^verbatim>\<open>sAvailable\<close> is recorded false; and from a state where it is false every later
  \<^verbatim>\<open>halCall\<close> of that instantiation returns the null-pointer status and leaves the state as
  it was: no acquisition, no call, no log. A \<^verbatim>\<open>tryGetService\<close> shows up among the events of
  a \<^verbatim>\<open>halCall\<close> (of a HAL method, which itself acquires nothing) only when the invocation
  finds \<^verbatim>\<open>sAvailable\<close> true and its first attempt fails.
\<close>

theorem halCall_unavailable_final:
  "(\<not> guard (static s k) \<and> fst (getService H (inst_iface k) (world s)) = None \<longrightarrow>
      guard (static (snd (halCall H k fn s)) k) \<and>
      \<not> sAvailable (static (snd (halCall H k fn s)) k)) \<and>
   (guard (static s k) \<and> \<not> sAvailable (static s k) \<longrightarrow>
      halCall H k fn s = (NullptrStatus, s)) \<and>
   ((\<forall>h t r t'. fn h t = (r, t') \<longrightarrow>
        (\<exists>evs. trace t' = trace t @ evs \<and> filter is_reconnect evs = [])) \<longrightarrow>
    filter is_reconnect (new_events s (snd (halCall H k fn s))) \<noteq> [] \<longrightarrow>
      sAvailable (static (static_init H k s) k) \<and>
      \<not> isOk (fst (attempt k fn (static_init H k s))))"
proof -
  have "guard (static (snd (halCall H k fn s)) k) \<and>
      \<not> sAvailable (static (snd (halCall H k fn s)) k)"
    if "\<not> guard (static s k)" "fst (getService H (inst_iface k) (world s)) = None"
    using that by (auto simp: halCall_def static_init_def split: prod.splits)
  moreover have "halCall H k fn s = (NullptrStatus, s)"
    if "guard (static s k)" "\<not> sAvailable (static s k)"
    using that by (simp add: halCall_def static_init_def)
  moreover have "sAvailable (static (static_init H k s) k) \<and>
      \<not> isOk (fst (attempt k fn (static_init H k s)))"
    if "\<forall>h t r t'. fn h t = (r, t') \<longrightarrow>
          (\<exists>evs. trace t' = trace t @ evs \<and> filter is_reconnect evs = [])"
      and "filter is_reconnect (new_events s (snd (halCall H k fn s))) \<noteq> []"
    using that by (intro halCall_reconnects_only_after_failure) blast+
  ultimately show ?thesis
    by blast
qed

lemma IVibrator_ping_no_reconnect:
  "IVibrator_ping H h t = (r, t') \<Longrightarrow>
   \<exists>evs. trace t' = trace t @ evs \<and> filter is_reconnect evs = []"
  by (auto simp: IVibrator_ping_def hal_method_def split: prod.splits)

theorem halCall_unavailable_final_witness:
  "\<not> guard (static boot halCall_ping) \<and>
   fst (getService (test_hal None (Some 1) [] (OK, 0)) (inst_iface halCall_ping) (world boot)) = None \<and>
   guard (static (vibratorInit (test_hal None (Some 1) [] (OK, 0)) boot) halCall_ping) \<and>
   \<not> sAvailable (static (vibratorInit (test_hal None (Some 1) [] (OK, 0)) boot) halCall_ping) \<and>
   vibratorExists (test_hal None (Some 1) [] (OK, 0))
       (vibratorInit (test_hal None (Some 1) [] (OK, 0)) boot) =
     (False, vibratorInit (test_hal None (Some 1) [] (OK, 0)) boot) \<and>
   filter is_reconnect (new_events boot (snd (halCall (test_hal (Some 0) (Some 1) [0] (OK, 0))
       halCall_ping (IVibrator_ping (test_hal (Some 0) (Some 1) [0] (OK, 0))) boot))) =
     [TryGetService IVibrator (Some 1)] \<and>
   sAvailable (static (static_init (test_hal (Some 0) (Some 1) [0] (OK, 0)) halCall_ping boot)
       halCall_ping) \<and>
   \<not> isOk (fst (attempt halCall_ping (IVibrator_ping (test_hal (Some 0) (Some 1) [0] (OK, 0)))
       (static_init (test_hal (Some 0) (Some 1) [0] (OK, 0)) halCall_ping boot)))"
proof -
  let ?H = "test_hal None (Some 1) [] (OK, 0)"
  let ?s1 = "vibratorInit ?H boot"
  let ?G = "test_hal (Some 0) (Some 1) [0] (OK, 0)"
  have a: "\<not> guard (static boot halCall_ping)"
    "fst (getService ?H (inst_iface halCall_ping) (world boot)) = None"
    by (simp_all add: boot_def test_hal_def)
  have b: "guard (static ?s1 halCall_ping) \<and> \<not> sAvailable (static ?s1 halCall_ping)"
    unfolding vibratorInit_def
    using halCall_unavailable_final [where s = boot and k = halCall_ping and H = ?H
        and fn = "IVibrator_ping ?H"] a
    by blast
  have "halCall ?H halCall_ping (IVibrator_ping ?H) ?s1 = (NullptrStatus, ?s1)"
    using halCall_unavailable_final [where s = ?s1 and k = halCall_ping and H = ?H
        and fn = "IVibrator_ping ?H"] b
    by blast
  then have c: "vibratorExists ?H ?s1 = (False, ?s1)"
    by (simp add: vibratorExists_def NullptrStatus_def)
  have re: "filter is_reconnect (new_events boot
       (snd (halCall ?G halCall_ping (IVibrator_ping ?G) boot))) =
     [TryGetService IVibrator (Some 1)]"
    by (simp add: run_defs)
  have quiet: "\<forall>h t r t'. IVibrator_ping ?G h (t :: (nat, 8 word) state) = (r, t') \<longrightarrow>
        (\<exists>evs. trace t' = trace t @ evs \<and> filter is_reconnect evs = [])"
    using IVibrator_ping_no_reconnect by blast
  have d: "sAvailable (static (static_init ?G halCall_ping boot) halCall_ping) \<and>
      \<not> isOk (fst (attempt halCall_ping (IVibrator_ping ?G) (static_init ?G halCall_ping boot)))"
    using halCall_unavailable_final [where s = boot and k = halCall_ping and H = ?G
        and fn = "IVibrator_ping ?G"] quiet re
    by simp
  show ?thesis
    using a b c re d by simp
qed

text \<open>
  C3 as stated fails: the service is absent when \<^verbatim>\<open>vibratorInit\<close> runs and would be handed
  out by \<^verbatim>\<open>tryGetService\<close> afterwards, yet the later \<^verbatim>\<open>vibratorExists\<close> answers false
  without a single event; the whole trace is the first, failed \<^verbatim>\<open>getService\<close>.
\<close>

theorem halCall_no_late_reconnect_counterexample:
  "tryGetService (test_hal None (Some 1) [] (OK, 0)) IVibrator
       (world (vibratorInit (test_hal None (Some 1) [] (OK, 0)) boot)) =
     (Some 1, world (vibratorInit (test_hal None (Some 1) [] (OK, 0)) boot)) \<and>
   fst (vibratorExists (test_hal None (Some 1) [] (OK, 0))
          (vibratorInit (test_hal None (Some 1) [] (OK, 0)) boot)) = False \<and>
   new_events (vibratorInit (test_hal None (Some 1) [] (OK, 0)) boot)
     (snd (vibratorExists (test_hal None (Some 1) [] (OK, 0))
             (vibratorInit (test_hal None (Some 1) [] (OK, 0)) boot))) = [] \<and>
   trace (snd (vibratorExists (test_hal None (Some 1) [] (OK, 0))
             (vibratorInit (test_hal None (Some 1) [] (OK, 0)) boot))) =
     [GetService IVibrator None]"
  by (simp add: run_defs)

text \<open>
  C9: a \<^verbatim>\<open>halCall\<close> of instantiation \<open>k\<close>, reconnections included, leaves the statics of
  every other instantiation as they were (the HAL method itself has no access to them).
\<close>

theorem halCall_statics_separate:
  assumes fn: "\<And>h s r s1. fn h s = (r, s1) \<Longrightarrow> static s1 = static s"
      and k: "k' \<noteq> k"
    shows "static (snd (halCall H k fn s)) k' = static s k'"
  using k
  by (auto simp: halCall_def halCall_loop_0 static_init_def reconnect_def attempt_def ALOGE_def
      NullptrStatus_def Let_def dest!: fn split: prod.splits option.splits)

lemma hal_method_static: "hal_method m ev h s = (r, s1) \<Longrightarrow> static s1 = static s"
  by (auto simp: hal_method_def split: prod.splits)

lemma with_callback_static:
  "with_callback callback (r0, s0) = (r, s1) \<Longrightarrow> static s1 = static s0"
  by (auto simp: with_callback_def callback_def split: Return.splits prod.splits)

theorem halCall_statics_separate_witness:
  "halCall_off \<noteq> halCall_on \<and>
   sHal (static (vibratorOff (test_hal (Some 0) (Some 1) [1] (OK, 0)) boot) halCall_off) = Some 0 \<and>
   sHal (static (snd (halCall (test_hal (Some 0) (Some 1) [1] (OK, 0)) halCall_on
            (IVibrator_on (test_hal (Some 0) (Some 1) [1] (OK, 0)) 5)
            (vibratorOff (test_hal (Some 0) (Some 1) [1] (OK, 0)) boot))) halCall_on) = Some 1 \<and>
   static (snd (halCall (test_hal (Some 0) (Some 1) [1] (OK, 0)) halCall_on
            (IVibrator_on (test_hal (Some 0) (Some 1) [1] (OK, 0)) 5)
            (vibratorOff (test_hal (Some 0) (Some 1) [1] (OK, 0)) boot))) halCall_off =
     static (vibratorOff (test_hal (Some 0) (Some 1) [1] (OK, 0)) boot) halCall_off"
proof -
  let ?H = "test_hal (Some 0) (Some 1) [1] (OK, 0)"
  let ?s1 = "vibratorOff ?H boot"
  let ?s2 = "snd (halCall ?H halCall_on (IVibrator_on ?H 5) ?s1)"
  have fn: "static s1 = static s" if "IVibrator_on ?H 5 h s = (r, s1)"
    for h r and s s1 :: "(nat, 8 word) state"
    using that unfolding IVibrator_on_def by (rule hal_method_static)
  have k: "halCall_off \<noteq> halCall_on"
    by simp
  have "static ?s2 halCall_off = static ?s1 halCall_off"
    using fn k by (rule halCall_statics_separate)
  moreover have "sHal (static ?s1 halCall_off) = Some 0"
    by (simp add: run_defs)
  moreover have "sHal (static ?s2 halCall_on) = Some 1"
    by (simp add: run_defs)
  ultimately show ?thesis
    using k by simp
qed

subsection \<open>The uninitialised locals of vibratorPerformEffect\<close>

lemma performEffect_invalid_effect:
  assumes "sint effect < 0 \<or> uint (TICK H) < sint effect"
  shows "vibratorPerformEffect H status0 lengthMs0 effect strength s =
           (if status0 = OK then ucast lengthMs0 else - 1,
            s\<lparr>trace := trace s @
                 LogW ''Unable to perform haptic effect, invalid effect ID (%PRId32)''
                   [ArgInt (sint (ucast effect :: 32 word))] #
                 (if status0 \<noteq> OK \<and> status0 \<noteq> UNSUPPORTED_OPERATION
                  then [LogE perform_failed_msg
                          [ArgInt (sint effect), ArgInt (sint strength), ArgStatus status0]]
                  else [])\<rparr>)"
  using assms
  by (simp add: vibratorPerformEffect_def dispatch_effect_invalid enter_frame_def leave_frame_def
      ALOGW_def ALOGE_def)

lemma sint_ucast_minus_1: "sint (ucast (- 1 :: 64 word) :: 32 word) = - 1"
  by code_simp

text \<open>
  C1: effect -1 is rejected without any contact with the service, but the value returned is read
  from the locals, which nothing has written: with \<open>OK\<close> in \<^verbatim>\<open>status\<close> and 7 in
  \<^verbatim>\<open>lengthMs\<close> the method returns 7.
\<close>

theorem performEffect_invalid_effect_reads_uninitialised:
  "sint (- 1 :: jlong) < 0 \<and>
   vibratorPerformEffect (test_hal (Some 0) (Some 1) [] (OK, 12)) OK 7 (- 1) 0 boot =
     (7, boot\<lparr>trace := [LogW ''Unable to perform haptic effect, invalid effect ID (%PRId32)''
                           [ArgInt (- 1)]]\<rparr>)"
  by (simp add: performEffect_invalid_effect boot_def sint_ucast_minus_1)

lemma performEffect_transport_failure:
  assumes "0 \<le> sint effect" "sint effect < uint (TICK H)"
      and "\<not> isOk (fst (halCall H halCall_perform
                 (IVibrator_perform H (ucast effect) (toEffectStrength H strength) callback)
                 (enter_frame s status0 lengthMs0)))"
  shows "fst (vibratorPerformEffect H status0 lengthMs0 effect strength s) =
           (if status0 = OK then ucast lengthMs0 else - 1)"
proof -
  obtain ret f1 where hc: "halCall H halCall_perform
      (IVibrator_perform H (ucast effect) (toEffectStrength H strength) callback)
      (enter_frame s status0 lengthMs0) = (ret, f1)"
    by (cases "halCall H halCall_perform
      (IVibrator_perform H (ucast effect) (toEffectStrength H strength) callback)
      (enter_frame s status0 lengthMs0)")
  then have nok: "\<not> isOk ret"
    using assms(3) by simp
  from halCall_perform_facts(6) [OF hc nok]
  have "status f1 = status0" "lengthMs f1 = lengthMs0"
    by (simp_all add: enter_frame_def)
  then show ?thesis
    using assms(1,2) hc nok
    by (simp add: vibratorPerformEffect_def dispatch_effect_def ALOGW_def leave_frame_def Let_def)
qed

text \<open>
  C5: both attempts of \<^verbatim>\<open>perform\<close> fail in transport, the callback never runs, and the
  value returned is again read from the unwritten locals: 7, not -1.
\<close>

theorem performEffect_transport_failure_reads_uninitialised:
  "fst (vibratorPerformEffect (test_hal (Some 0) (Some 1) [0, 1] (OK, 12)) OK 7 1 0 boot) = 7 \<and>
   new_events boot
     (snd (vibratorPerformEffect (test_hal (Some 0) (Some 1) [0, 1] (OK, 12)) OK 7 1 0 boot)) =
     [GetService IVibrator (Some 0),
      Call_perform 0 1 0 (FromStatus EX_TRANSACTION_FAILED),
      LogE ''Failed to issue command to vibrator HAL. Retrying.'' [],
      TryGetService IVibrator (Some 1),
      Call_perform 1 1 0 (FromStatus EX_TRANSACTION_FAILED),
      LogE ''Failed to issue command to vibrator HAL. Retrying.'' [],
      TryGetService IVibrator (Some 1),
      LogW ''Failed to perform effect (%PRId32)'' [ArgInt 1]]"
  by (simp add: run_defs)

text \<open>The other native methods do fall back to their defaults when the dispatcher fails.\<close>

lemma vibratorExists_degrades:
  "\<not> isOk (fst (halCall H halCall_ping (IVibrator_ping H) s)) \<Longrightarrow>
   fst (vibratorExists H s) = False"
  by (cases "halCall H halCall_ping (IVibrator_ping H) s") (simp add: vibratorExists_def)

lemma vibratorSupportsAmplitudeControl_degrades:
  "\<not> isOk (fst (halCall H halCall_supportsAmplitudeControl
                  (IVibrator_supportsAmplitudeControl H) s)) \<Longrightarrow>
   fst (vibratorSupportsAmplitudeControl H s) = 0"
proof -
  assume nok: "\<not> isOk (fst (halCall H halCall_supportsAmplitudeControl
                  (IVibrator_supportsAmplitudeControl H) s))"
  obtain ret s' where hc: "halCall H halCall_supportsAmplitudeControl
      (IVibrator_supportsAmplitudeControl H) s = (ret, s')"
    by (cases "halCall H halCall_supportsAmplitudeControl
      (IVibrator_supportsAmplitudeControl H) s")
  with nok have "\<not> isOk ret"
    by simp
  then have "withDefault ret False = False"
    by (cases ret) simp_all
  then show ?thesis
    using hc by (simp add: vibratorSupportsAmplitudeControl_def)
qed


end
